theory Spec2Isabelle
  imports Complex_Main "HOL-Library.Word" "HOL-Library.Char_ord" "HOL-Library.List_Lexorder"
begin

section \<open>JavaScript values\<close>

text \<open>
  The service is the Netlify function \<^verbatim>\<open>netlify/functions/api.js\<close> (and its Express twin).
  Its handlers work on values that come out of \<^verbatim>\<open>JSON.parse\<close>, so the embedding starts with
  those values. A string is the list of its code units; the character type has 256 values,
  which covers every string the handlers compare (route names, status names, the redeem
  codes). Text beyond that range (the Arabic messages and player names) is only ever copied
  and is carried as its UTF-8 bytes. An object is the list of its own enumerable properties
  in enumeration order. \<open>JUndefined\<close> is what reading an absent property gives.
\<close>

datatype jv =
    JUndefined
  | JNull
  | JBool bool
  | JNum rat
  | JStr string
  | JArr "jv list"
  | JObj "(string \<times> jv) list"

datatype js_error = Error string | TypeError | SyntaxError

text \<open>Truthiness, as \<^verbatim>\<open>!x\<close> and \<^verbatim>\<open>x || y\<close> test it.\<close>

fun truthy :: "jv \<Rightarrow> bool" where
  "truthy JUndefined = False"
| "truthy JNull = False"
| "truthy (JBool b) = b"
| "truthy (JNum n) = (n \<noteq> 0)"
| "truthy (JStr s) = (s \<noteq> [])"
| "truthy (JArr xs) = True"
| "truthy (JObj kvs) = True"

text \<open>
  Reading a property or destructuring throws a TypeError on \<^verbatim>\<open>null\<close> and
  \<^verbatim>\<open>undefined\<close>; on every other value it yields the own property or
  \<^verbatim>\<open>undefined\<close>. (None of the property names the handlers read is inherited from a
  prototype.)
\<close>

fun nullish :: "jv \<Rightarrow> bool" where
  "nullish JUndefined = True"
| "nullish JNull = True"
| "nullish v = False"

fun js_get :: "jv \<Rightarrow> string \<Rightarrow> jv" where
  "js_get (JObj kvs) k = (case map_of kvs k of Some v \<Rightarrow> v | None \<Rightarrow> JUndefined)"
| "js_get v k = JUndefined"

subsection \<open>Strings\<close>

definition startsWith :: "string \<Rightarrow> string \<Rightarrow> bool" where
  "startsWith s p = (take (length p) s = p)"

text \<open>\<^verbatim>\<open>s.replace(pat, rep)\<close> with a string pattern replaces the first occurrence only.\<close>

fun replace_first :: "string \<Rightarrow> string \<Rightarrow> string \<Rightarrow> string" where
  "replace_first pat rep [] = (if pat = [] then rep else [])"
| "replace_first pat rep (c # cs) =
     (if startsWith (c # cs) pat then rep @ drop (length pat) (c # cs)
      else c # replace_first pat rep cs)"

text \<open>\<^verbatim>\<open>s.split("/")[1]\<close>, for a string that contains a slash.\<close>

definition split_slash_1 :: "string \<Rightarrow> string" where
  "split_slash_1 s =
     takeWhile (\<lambda>c. c \<noteq> CHR ''/'') (drop 1 (dropWhile (\<lambda>c. c \<noteq> CHR ''/'') s))"

definition is_ascii :: "char \<Rightarrow> bool" where
  "is_ascii c = ((of_char c :: nat) < 128)"

definition ascii_upper :: "char \<Rightarrow> char" where
  "ascii_upper c =
     (case map_of (zip ''abcdefghijklmnopqrstuvwxyz'' ''ABCDEFGHIJKLMNOPQRSTUVWXYZ'') c of
        Some u \<Rightarrow> u
      | None \<Rightarrow> c)"

text \<open>
  \<^verbatim>\<open>String.prototype.toUpperCase\<close> maps each ASCII letter to its capital and leaves the
  other ASCII characters. What it does to a code unit beyond ASCII is the Unicode case
  table of the runtime, which is not part of the repository: it is the parameter \<open>other\<close>.
\<close>

definition toUpperCase :: "(char \<Rightarrow> string) \<Rightarrow> string \<Rightarrow> string" where
  "toUpperCase other s =
     concat (map (\<lambda>c. if is_ascii c then [ascii_upper c] else other c) s)"

text \<open>
  \<^verbatim>\<open>String.prototype.trim\<close> strips white space and line terminators at both ends: among
  the code units below 256 these are TAB, LF, VT, FF, CR, SPACE and NBSP.
\<close>

definition is_space :: "char \<Rightarrow> bool" where
  "is_space c = (c \<in> set [CHR 0x09, CHR 0x0A, CHR 0x0B, CHR 0x0C, CHR 0x0D, CHR 0x20, CHR 0xA0])"

definition trim :: "string \<Rightarrow> string" where
  "trim s = rev (dropWhile is_space (rev (dropWhile is_space s)))"

text \<open>Decimal rendering of a non-negative integer, as a template literal renders it.\<close>

definition digit_char :: "nat \<Rightarrow> char" where
  "digit_char d = ''0123456789'' ! d"

function string_of_nat :: "nat \<Rightarrow> string" where
  "string_of_nat n =
     (if n < 10 then [digit_char n] else string_of_nat (n div 10) @ [digit_char (n mod 10)])"
  by pat_completeness simp
termination
proof (relation "measure id")
  show "wf (measure id)" by simp
next
  fix n :: nat
  assume "\<not> n < 10"
  then have "n div 10 < n" by simp
  then show "(n div 10, n) \<in> measure id" by simp
qed

declare string_of_nat.simps [simp del]

text \<open>\<^verbatim>\<open>Buffer.toString("hex")\<close>: two lower-case hexadecimal digits for each byte.\<close>

definition hex_digit :: "nat \<Rightarrow> char" where
  "hex_digit d = ''0123456789abcdef'' ! d"

definition hex_of_bytes :: "8 word list \<Rightarrow> string" where
  "hex_of_bytes bs = concat (map (\<lambda>b. [hex_digit (unat b div 16), hex_digit (unat b mod 16)]) bs)"

subsection \<open>Objects: property order and assignment\<close>

text \<open>
  An array index is the canonical decimal string of an integer below \<open>2^32 - 1\<close>. A
  JavaScript object enumerates its array-index keys first, in ascending numeric order, and
  its other string keys after them, in the order they were created.
\<close>

definition is_digit :: "char \<Rightarrow> bool" where
  "is_digit c = (c \<in> set ''0123456789'')"

definition nat_of_digits :: "string \<Rightarrow> nat" where
  "nat_of_digits s = foldl (\<lambda>n c. 10 * n + ((of_char c :: nat) - 48)) 0 s"

fun canonical_digits :: "string \<Rightarrow> bool" where
  "canonical_digits [] = False"
| "canonical_digits [c] = is_digit c"
| "canonical_digits (c # cs) = (c \<noteq> CHR ''0'' \<and> list_all is_digit (c # cs))"

definition is_array_index :: "string \<Rightarrow> bool" where
  "is_array_index s = (canonical_digits s \<and> nat_of_digits s < 4294967295)"

fun insert_index :: "string \<Rightarrow> jv \<Rightarrow> (string \<times> jv) list \<Rightarrow> (string \<times> jv) list" where
  "insert_index k v [] = [(k, v)]"
| "insert_index k v ((k', v') # kvs) =
     (if is_array_index k' \<and> nat_of_digits k' < nat_of_digits k
      then (k', v') # insert_index k v kvs
      else (k, v) # (k', v') # kvs)"

text \<open>
  \<^verbatim>\<open>obj[key] = v\<close> on an object created by \<^verbatim>\<open>{}\<close>. The key \<^verbatim>\<open>__proto__\<close> is the
  accessor of \<^verbatim>\<open>Object.prototype\<close>: assigning to it creates no own property. An existing
  key keeps its place; a new array index goes among the indices; any other new key goes
  last.
\<close>

definition obj_set :: "(string \<times> jv) list \<Rightarrow> string \<Rightarrow> jv \<Rightarrow> (string \<times> jv) list" where
  "obj_set obj k v =
     (if k = ''__proto__'' then obj
      else if map_of obj k \<noteq> None then map (\<lambda>(k', v'). if k' = k then (k', v) else (k', v')) obj
      else if is_array_index k then insert_index k v obj
      else obj @ [(k, v)])"

text \<open>
  The own enumerable properties \<^verbatim>\<open>Object.keys\<close> lists, with their values: the
  properties of an object, the elements of an array, the code units of a string, nothing
  for a number or a boolean, and a TypeError for \<^verbatim>\<open>null\<close> and \<^verbatim>\<open>undefined\<close>.
\<close>

fun own_entries :: "jv \<Rightarrow> js_error + (string \<times> jv) list" where
  "own_entries JUndefined = Inl TypeError"
| "own_entries JNull = Inl TypeError"
| "own_entries (JObj kvs) = Inr kvs"
| "own_entries (JArr xs) = Inr (zip (map string_of_nat [0..<length xs]) xs)"
| "own_entries (JStr s) = Inr (zip (map string_of_nat [0..<length s]) (map (\<lambda>c. JStr [c]) s))"
| "own_entries (JBool b) = Inr []"
| "own_entries (JNum n) = Inr []"

text \<open>
  \<^verbatim>\<open>Object.keys(payload).sort().reduce((obj, key) => { obj[key] = payload[key]; return obj; }, {})\<close>.
  The default \<^verbatim>\<open>sort\<close> orders strings by their code units.
\<close>

definition rebuild_sorted :: "(string \<times> jv) list \<Rightarrow> (string \<times> jv) list" where
  "rebuild_sorted kvs =
     foldl (\<lambda>obj key. obj_set obj key (case map_of kvs key of Some v \<Rightarrow> v | None \<Rightarrow> JUndefined))
       [] (sort (map fst kvs))"

definition sortedPayload :: "jv \<Rightarrow> js_error + (string \<times> jv) list" where
  "sortedPayload payload =
     (case own_entries payload of Inl e \<Rightarrow> Inl e | Inr kvs \<Rightarrow> Inr (rebuild_sorted kvs))"

section \<open>Configuration, runtime library and stores\<close>

text \<open>The environment variables; an unset variable is \<open>None\<close>.\<close>

record config =
  NOWPAYMENTS_API_KEY :: "string option"
  NOWPAYMENTS_IPN_SECRET :: "string option"
  PRODUCTION :: "string option"

definition env_truthy :: "string option \<Rightarrow> bool" where
  "env_truthy v = (case v of None \<Rightarrow> False | Some s \<Rightarrow> s \<noteq> [])"

definition IS_PRODUCTION :: "config \<Rightarrow> bool" where
  "IS_PRODUCTION cfg = (PRODUCTION cfg = Some ''true'')"

definition NOWPAYMENTS_BASE :: "config \<Rightarrow> string" where
  "NOWPAYMENTS_BASE cfg =
     (if IS_PRODUCTION cfg then ''https://api.nowpayments.io/v1''
      else ''https://api-sandbox.nowpayments.io/v1'')"

text \<open>
  The functions of the Node runtime the handlers call and the repository does not define.
  Every theorem below holds for all of them.
\<close>

record runtime =
  hmac_sha512_hex :: "string \<Rightarrow> string \<Rightarrow> string"
  JSON_stringify :: "jv \<Rightarrow> string"
  toUpperCase_other :: "char \<Rightarrow> string"
  ToString_other :: "jv \<Rightarrow> string"
  engine_message :: "js_error \<Rightarrow> string"
  toLocaleDateString_arSA :: "jv \<Rightarrow> string"
  toLocaleString :: "nat \<Rightarrow> string"

text \<open>String conversion inside a template literal or \<^verbatim>\<open>new Error(x)\<close>.\<close>

fun ToString :: "runtime \<Rightarrow> jv \<Rightarrow> string" where
  "ToString rt (JStr s) = s"
| "ToString rt JUndefined = ''undefined''"
| "ToString rt JNull = ''null''"
| "ToString rt (JBool b) = (if b then ''true'' else ''false'')"
| "ToString rt v = ToString_other rt v"

fun error_message :: "runtime \<Rightarrow> js_error \<Rightarrow> string" where
  "error_message rt (Error m) = m"
| "error_message rt e = engine_message rt e"

record player =
  player_id :: nat
  name :: string
  nameEn :: string
  price :: nat
  btc :: rat
  sold :: bool

text \<open>
  An order as \<^verbatim>\<open>create-payment\<close> or \<^verbatim>\<open>create-invoice\<close> stores it. A field the
  object does not have reads as \<^verbatim>\<open>undefined\<close>.
\<close>

record order =
  orderId :: string
  playerId :: nat
  playerName :: string
  priceAmount :: nat
  payCurrency :: jv
  payAmount :: jv
  payAddress :: jv
  paymentId :: jv
  invoiceId :: jv
  invoiceUrl :: jv
  status :: jv
  redeemOption :: jv
  customer :: jv
  createdAt :: string
  actuallyPaid :: jv

record redeem_code =
  code_playerId :: nat
  code_playerName :: string
  code_playerNameEn :: string
  sats :: nat
  redeemed :: bool
  redeemedAt :: jv
  redeemedTo :: jv
  txId :: jv
  email :: jv

record server_state =
  orders :: "string \<rightharpoonup> order"
  redeemCodes :: "string \<rightharpoonup> redeem_code"
  players :: "player list"

subsection \<open>Fixed texts and seed data\<close>

text \<open>
  The non-ASCII literals of the source, as their UTF-8 bytes.
\<close>

definition msg_api_key_missing :: string where
  "msg_api_key_missing =
     ''NOWPAYMENTS_API_KEY is not configured on the server. Set it in Netlify dashboard ''
     @ [CHR 0xE2, CHR 0x86, CHR 0x92] @ '' Site settings '' @ [CHR 0xE2, CHR 0x86, CHR 0x92]
     @ '' Environment variables.''"

definition msg_redeem_required_error :: string where
  "msg_redeem_required_error =
     [CHR 0xD8, CHR 0xB1, CHR 0xD9, CHR 0x85, CHR 0xD8, CHR 0xB2] @ '' '' @ [CHR 0xD8,
     CHR 0xA7, CHR 0xD9, CHR 0x84, CHR 0xD8, CHR 0xA7, CHR 0xD8, CHR 0xB3, CHR 0xD8,
     CHR 0xAA, CHR 0xD8, CHR 0xB1, CHR 0xD8, CHR 0xAF, CHR 0xD8, CHR 0xA7, CHR 0xD8,
     CHR 0xAF] @ '' '' @ [CHR 0xD9, CHR 0x88, CHR 0xD8, CHR 0xB9, CHR 0xD9, CHR 0x86,
     CHR 0xD9, CHR 0x88, CHR 0xD8, CHR 0xA7, CHR 0xD9, CHR 0x86] @ '' '' @ [CHR 0xD9,
     CHR 0x85, CHR 0xD8, CHR 0xAD, CHR 0xD9, CHR 0x81, CHR 0xD8, CHR 0xB8, CHR 0xD8,
     CHR 0xA9] @ '' Lightning '' @ [CHR 0xD9, CHR 0x85, CHR 0xD8, CHR 0xB7, CHR 0xD9,
     CHR 0x84, CHR 0xD9, CHR 0x88, CHR 0xD8, CHR 0xA8, CHR 0xD8, CHR 0xA7, CHR 0xD9,
     CHR 0x86]"

definition msg_redeem_required_message :: string where
  "msg_redeem_required_message =
     [CHR 0xD9, CHR 0x8A, CHR 0xD8, CHR 0xB1, CHR 0xD8, CHR 0xAC, CHR 0xD9, CHR 0x89]
     @ '' '' @ [CHR 0xD8, CHR 0xA5, CHR 0xD8, CHR 0xAF, CHR 0xD8, CHR 0xAE, CHR 0xD8,
     CHR 0xA7, CHR 0xD9, CHR 0x84] @ '' '' @ [CHR 0xD8, CHR 0xB1, CHR 0xD9, CHR 0x85,
     CHR 0xD8, CHR 0xB2] @ '' '' @ [CHR 0xD8, CHR 0xA7, CHR 0xD9, CHR 0x84, CHR 0xD8,
     CHR 0xA7, CHR 0xD8, CHR 0xB3, CHR 0xD8, CHR 0xAA, CHR 0xD8, CHR 0xB1, CHR 0xD8,
     CHR 0xAF, CHR 0xD8, CHR 0xA7, CHR 0xD8, CHR 0xAF] @ '' '' @ [CHR 0xD9, CHR 0x88,
     CHR 0xD8, CHR 0xB9, CHR 0xD9, CHR 0x86, CHR 0xD9, CHR 0x88, CHR 0xD8, CHR 0xA7,
     CHR 0xD9, CHR 0x86] @ '' '' @ [CHR 0xD8, CHR 0xA7, CHR 0xD9, CHR 0x84, CHR 0xD9,
     CHR 0x85, CHR 0xD8, CHR 0xAD, CHR 0xD9, CHR 0x81, CHR 0xD8, CHR 0xB8, CHR 0xD8,
     CHR 0xA9]"

definition msg_redeem_invalid_error :: string where
  "msg_redeem_invalid_error =
     [CHR 0xD8, CHR 0xB1, CHR 0xD9, CHR 0x85, CHR 0xD8, CHR 0xB2] @ '' '' @ [CHR 0xD8,
     CHR 0xA7, CHR 0xD9, CHR 0x84, CHR 0xD8, CHR 0xA7, CHR 0xD8, CHR 0xB3, CHR 0xD8,
     CHR 0xAA, CHR 0xD8, CHR 0xB1, CHR 0xD8, CHR 0xAF, CHR 0xD8, CHR 0xA7, CHR 0xD8,
     CHR 0xAF] @ '' '' @ [CHR 0xD8, CHR 0xBA, CHR 0xD9, CHR 0x8A, CHR 0xD8, CHR 0xB1]
     @ '' '' @ [CHR 0xD8, CHR 0xB5, CHR 0xD8, CHR 0xA7, CHR 0xD9, CHR 0x84, CHR 0xD8,
     CHR 0xAD]"

definition msg_redeem_invalid_message :: string where
  "msg_redeem_invalid_message =
     [CHR 0xD8, CHR 0xA7, CHR 0xD9, CHR 0x84, CHR 0xD8, CHR 0xB1, CHR 0xD9, CHR 0x85,
     CHR 0xD8, CHR 0xB2] @ '' '' @ [CHR 0xD8, CHR 0xA7, CHR 0xD9, CHR 0x84, CHR 0xD9,
     CHR 0x85, CHR 0xD8, CHR 0xAF, CHR 0xD8, CHR 0xAE, CHR 0xD9, CHR 0x84] @ '' ''
     @ [CHR 0xD8, CHR 0xBA, CHR 0xD9, CHR 0x8A, CHR 0xD8, CHR 0xB1] @ '' '' @ [CHR 0xD9,
     CHR 0x85, CHR 0xD9, CHR 0x88, CHR 0xD8, CHR 0xAC, CHR 0xD9, CHR 0x88, CHR 0xD8,
     CHR 0xAF] @ '' '' @ [CHR 0xD9, CHR 0x81, CHR 0xD9, CHR 0x8A] @ '' '' @ [CHR 0xD9,
     CHR 0x82, CHR 0xD8, CHR 0xA7, CHR 0xD8, CHR 0xB9, CHR 0xD8, CHR 0xAF, CHR 0xD8,
     CHR 0xA9] @ '' '' @ [CHR 0xD8, CHR 0xA7, CHR 0xD9, CHR 0x84, CHR 0xD8, CHR 0xA8,
     CHR 0xD9, CHR 0x8A, CHR 0xD8, CHR 0xA7, CHR 0xD9, CHR 0x86, CHR 0xD8, CHR 0xA7,
     CHR 0xD8, CHR 0xAA] @ ''. '' @ [CHR 0xD8, CHR 0xAA, CHR 0xD8, CHR 0xA3, CHR 0xD9,
     CHR 0x83, CHR 0xD8, CHR 0xAF] @ '' '' @ [CHR 0xD9, CHR 0x85, CHR 0xD9, CHR 0x86]
     @ '' '' @ [CHR 0xD9, CHR 0x83, CHR 0xD8, CHR 0xAA, CHR 0xD8, CHR 0xA7, CHR 0xD8,
     CHR 0xA8, CHR 0xD8, CHR 0xA9] @ '' '' @ [CHR 0xD8, CHR 0xA7, CHR 0xD9, CHR 0x84,
     CHR 0xD8, CHR 0xB1, CHR 0xD9, CHR 0x85, CHR 0xD8, CHR 0xB2] @ '' '' @ [CHR 0xD8,
     CHR 0xA8, CHR 0xD8, CHR 0xB4, CHR 0xD9, CHR 0x83, CHR 0xD9, CHR 0x84] @ '' ''
     @ [CHR 0xD8, CHR 0xB5, CHR 0xD8, CHR 0xAD, CHR 0xD9, CHR 0x8A, CHR 0xD8, CHR 0xAD]
     @ ''.''"

definition msg_redeem_used_error :: string where
  "msg_redeem_used_error =
     [CHR 0xD8, CHR 0xAA, CHR 0xD9, CHR 0x85] @ '' '' @ [CHR 0xD8, CHR 0xA7, CHR 0xD8,
     CHR 0xB3, CHR 0xD8, CHR 0xAA, CHR 0xD8, CHR 0xAE, CHR 0xD8, CHR 0xAF, CHR 0xD8,
     CHR 0xA7, CHR 0xD9, CHR 0x85] @ '' '' @ [CHR 0xD9, CHR 0x87, CHR 0xD8, CHR 0xB0,
     CHR 0xD8, CHR 0xA7] @ '' '' @ [CHR 0xD8, CHR 0xA7, CHR 0xD9, CHR 0x84, CHR 0xD8,
     CHR 0xB1, CHR 0xD9, CHR 0x85, CHR 0xD8, CHR 0xB2] @ '' '' @ [CHR 0xD9, CHR 0x85,
     CHR 0xD8, CHR 0xB3, CHR 0xD8, CHR 0xA8, CHR 0xD9, CHR 0x82, CHR 0xD8, CHR 0xA7,
     CHR 0xD9, CHR 0x8B]"

definition msg_redeem_used_prefix :: string where
  "msg_redeem_used_prefix =
     [CHR 0xD8, CHR 0xAA, CHR 0xD9, CHR 0x85] @ '' '' @ [CHR 0xD8, CHR 0xA7, CHR 0xD8,
     CHR 0xB3, CHR 0xD8, CHR 0xAA, CHR 0xD8, CHR 0xB1, CHR 0xD8, CHR 0xAF, CHR 0xD8,
     CHR 0xA7, CHR 0xD8, CHR 0xAF] @ '' '' @ [CHR 0xD9, CHR 0x87, CHR 0xD8, CHR 0xB0,
     CHR 0xD8, CHR 0xA7] @ '' '' @ [CHR 0xD8, CHR 0xA7, CHR 0xD9, CHR 0x84, CHR 0xD8,
     CHR 0xB1, CHR 0xD9, CHR 0x85, CHR 0xD8, CHR 0xB2] @ '' '' @ [CHR 0xD8, CHR 0xA8,
     CHR 0xD8, CHR 0xAA, CHR 0xD8, CHR 0xA7, CHR 0xD8, CHR 0xB1, CHR 0xD9, CHR 0x8A,
     CHR 0xD8, CHR 0xAE] @ '' ''"

definition msg_redeem_used_suffix :: string where
  "msg_redeem_used_suffix =
     ''. '' @ [CHR 0xD9, CHR 0x83, CHR 0xD9, CHR 0x84] @ '' '' @ [CHR 0xD8, CHR 0xB1,
     CHR 0xD9, CHR 0x85, CHR 0xD8, CHR 0xB2] @ '' '' @ [CHR 0xD8, CHR 0xB5, CHR 0xD8,
     CHR 0xA7, CHR 0xD9, CHR 0x84, CHR 0xD8, CHR 0xAD] @ '' '' @ [CHR 0xD9, CHR 0x84,
     CHR 0xD9, CHR 0x84, CHR 0xD8, CHR 0xA7, CHR 0xD8, CHR 0xB3, CHR 0xD8, CHR 0xAA,
     CHR 0xD8, CHR 0xAE, CHR 0xD8, CHR 0xAF, CHR 0xD8, CHR 0xA7, CHR 0xD9, CHR 0x85] @ '' ''
     @ [CHR 0xD9, CHR 0x85, CHR 0xD8, CHR 0xB1, CHR 0xD8, CHR 0xA9] @ '' '' @ [CHR 0xD9,
     CHR 0x88, CHR 0xD8, CHR 0xA7, CHR 0xD8, CHR 0xAD, CHR 0xD8, CHR 0xAF, CHR 0xD8,
     CHR 0xA9] @ '' '' @ [CHR 0xD9, CHR 0x81, CHR 0xD9, CHR 0x82, CHR 0xD8, CHR 0xB7]
     @ ''.''"

definition msg_redeem_sent_prefix :: string where
  "msg_redeem_sent_prefix =
     [CHR 0xD8, CHR 0xAA, CHR 0xD9, CHR 0x85] @ '' '' @ [CHR 0xD8, CHR 0xA5, CHR 0xD8,
     CHR 0xB1, CHR 0xD8, CHR 0xB3, CHR 0xD8, CHR 0xA7, CHR 0xD9, CHR 0x84] @ '' ''"

definition msg_redeem_sent_suffix :: string where
  "msg_redeem_sent_suffix =
     '' '' @ [CHR 0xD8, CHR 0xB3, CHR 0xD8, CHR 0xA7, CHR 0xD8, CHR 0xAA, CHR 0xD9,
     CHR 0x88, CHR 0xD8, CHR 0xB4, CHR 0xD9, CHR 0x8A] @ '' '' @ [CHR 0xD8, CHR 0xA5,
     CHR 0xD9, CHR 0x84, CHR 0xD9, CHR 0x89] @ '' '' @ [CHR 0xD9, CHR 0x85, CHR 0xD8,
     CHR 0xAD, CHR 0xD9, CHR 0x81, CHR 0xD8, CHR 0xB8, CHR 0xD8, CHR 0xAA, CHR 0xD9,
     CHR 0x83] @ '' '' @ [CHR 0xD8, CHR 0xA8, CHR 0xD9, CHR 0x86, CHR 0xD8, CHR 0xAC,
     CHR 0xD8, CHR 0xA7, CHR 0xD8, CHR 0xAD] @ ''!''"

definition name_ronaldo :: string where
  "name_ronaldo =
     [CHR 0xD9, CHR 0x83, CHR 0xD8, CHR 0xB1, CHR 0xD9, CHR 0x8A, CHR 0xD8, CHR 0xB3,
     CHR 0xD8, CHR 0xAA, CHR 0xD9, CHR 0x8A, CHR 0xD8, CHR 0xA7, CHR 0xD9, CHR 0x86,
     CHR 0xD9, CHR 0x88] @ '' '' @ [CHR 0xD8, CHR 0xB1, CHR 0xD9, CHR 0x88, CHR 0xD9,
     CHR 0x86, CHR 0xD8, CHR 0xA7, CHR 0xD9, CHR 0x84, CHR 0xD8, CHR 0xAF, CHR 0xD9,
     CHR 0x88]"

definition name_mane :: string where
  "name_mane =
     [CHR 0xD8, CHR 0xB3, CHR 0xD8, CHR 0xA7, CHR 0xD8, CHR 0xAF, CHR 0xD9, CHR 0x8A,
     CHR 0xD9, CHR 0x88] @ '' '' @ [CHR 0xD9, CHR 0x85, CHR 0xD8, CHR 0xA7, CHR 0xD9,
     CHR 0x86, CHR 0xD9, CHR 0x8A]"

definition name_laporte :: string where
  "name_laporte =
     [CHR 0xD8, CHR 0xA7, CHR 0xD9, CHR 0x8A, CHR 0xD9, CHR 0x85, CHR 0xD8, CHR 0xB1,
     CHR 0xD9, CHR 0x8A, CHR 0xD9, CHR 0x83] @ '' '' @ [CHR 0xD9, CHR 0x84, CHR 0xD8,
     CHR 0xA7, CHR 0xD8, CHR 0xA8, CHR 0xD9, CHR 0x88, CHR 0xD8, CHR 0xB1, CHR 0xD8,
     CHR 0xAA]"

definition name_brozovic :: string where
  "name_brozovic =
     [CHR 0xD9, CHR 0x85, CHR 0xD8, CHR 0xA7, CHR 0xD8, CHR 0xB1, CHR 0xD8, CHR 0xB3,
     CHR 0xD9, CHR 0x8A, CHR 0xD9, CHR 0x84, CHR 0xD9, CHR 0x88] @ '' '' @ [CHR 0xD8,
     CHR 0xA8, CHR 0xD8, CHR 0xB1, CHR 0xD9, CHR 0x88, CHR 0xD8, CHR 0xB2, CHR 0xD9,
     CHR 0x88, CHR 0xD9, CHR 0x81, CHR 0xD9, CHR 0x8A, CHR 0xD8, CHR 0xAA, CHR 0xD8,
     CHR 0xB4]"

definition name_telles :: string where
  "name_telles =
     [CHR 0xD8, CHR 0xA3, CHR 0xD9, CHR 0x84, CHR 0xD9, CHR 0x8A, CHR 0xD9, CHR 0x83,
     CHR 0xD8, CHR 0xB3] @ '' '' @ [CHR 0xD8, CHR 0xAA, CHR 0xD9, CHR 0x8A, CHR 0xD9,
     CHR 0x84, CHR 0xD9, CHR 0x8A, CHR 0xD8, CHR 0xB3]"

definition name_fofana :: string where
  "name_fofana =
     [CHR 0xD8, CHR 0xB3, CHR 0xD9, CHR 0x8A, CHR 0xD9, CHR 0x83, CHR 0xD9, CHR 0x88]
     @ '' '' @ [CHR 0xD9, CHR 0x81, CHR 0xD9, CHR 0x88, CHR 0xD9, CHR 0x81, CHR 0xD8,
     CHR 0xA7, CHR 0xD9, CHR 0x86, CHR 0xD8, CHR 0xA7]"

definition nameEn_mane :: string where
  "nameEn_mane =
     ''Sadio Man'' @ [CHR 0xC3, CHR 0xA9]"

definition nameEn_brozovic :: string where
  "nameEn_brozovic =
     ''Marcelo Brozovi'' @ [CHR 0xC4, CHR 0x87]"

definition seed_code :: "nat \<Rightarrow> string \<Rightarrow> string \<Rightarrow> nat \<Rightarrow> redeem_code" where
  "seed_code i n en amount =
     \<lparr>code_playerId = i, code_playerName = n, code_playerNameEn = en, sats = amount,
      redeemed = False, redeemedAt = JNull, redeemedTo = JNull, txId = JUndefined,
      email = JUndefined\<rparr>"

definition redeemCodes_init :: "(string \<times> redeem_code) list" where
  "redeemCodes_init =
     [(''NASSR-R7CR-GOLD-2025'', seed_code 1 name_ronaldo ''Cristiano Ronaldo'' 5200000),
      (''NASSR-MANE-STAR-2025'', seed_code 2 name_mane nameEn_mane 3600000),
      (''NASSR-LAPO-DFND-2025'', seed_code 3 name_laporte ''Aymeric Laporte'' 2700000),
      (''NASSR-BROZ-MIDX-2025'', seed_code 4 name_brozovic nameEn_brozovic 2100000),
      (''NASSR-TELL-WING-2025'', seed_code 5 name_telles ''Alex Telles'' 1600000),
      (''NASSR-FOFA-POWR-2025'', seed_code 6 name_fofana ''Seko Fofana'' 1100000)]"

definition players_init :: "player list" where
  "players_init =
     [\<lparr>player_id = 1, name = name_ronaldo, nameEn = ''Cristiano Ronaldo'', price = 189999,
        btc = 75 / 100, sold = False\<rparr>,
      \<lparr>player_id = 2, name = name_mane, nameEn = nameEn_mane, price = 129999,
        btc = 52 / 100, sold = False\<rparr>,
      \<lparr>player_id = 3, name = name_laporte, nameEn = ''Aymeric Laporte'', price = 99999,
        btc = 27 / 100, sold = True\<rparr>,
      \<lparr>player_id = 4, name = name_brozovic, nameEn = nameEn_brozovic, price = 74999,
        btc = 21 / 100, sold = False\<rparr>,
      \<lparr>player_id = 5, name = name_telles, nameEn = ''Alex Telles'', price = 59999,
        btc = 16 / 100, sold = True\<rparr>,
      \<lparr>player_id = 6, name = name_fofana, nameEn = ''Seko Fofana'', price = 39999,
        btc = 11 / 100, sold = False\<rparr>]"

definition init_state :: server_state where
  "init_state = \<lparr>orders = Map.empty, redeemCodes = map_of redeemCodes_init, players = players_init\<rparr>"

section \<open>Requests, responses and the payment gateway\<close>

text \<open>
  The event the function receives. \<open>path\<close> is the resolved route, after the function has
  stripped the \<^verbatim>\<open>/.netlify/functions/api\<close> and \<^verbatim>\<open>/api/\<close> prefixes. \<open>body\<close> is the
  result of \<^verbatim>\<open>JSON.parse(event.body)\<close>, \<open>None\<close> when it throws.
\<close>

record event =
  httpMethod :: string
  path :: string
  headers :: "(string \<times> string) list"
  body :: "jv option"
  queryStringParameters :: "(string \<times> string) list option"

text \<open>What a handler passes to \<^verbatim>\<open>respond\<close>: a JSON value, a stored order or the catalogue.\<close>

datatype reply = Json jv | OrderJson order | CardsJson "player list"

record response =
  statusCode :: nat
  resp_headers :: "(string \<times> string) list"
  resp_body :: reply

definition respond :: "nat \<Rightarrow> reply \<Rightarrow> response" where
  "respond code b =
     \<lparr>statusCode = code,
      resp_headers =
        [(''Content-Type'', ''application/json''),
         (''Access-Control-Allow-Origin'', ''*''),
         (''Access-Control-Allow-Headers'', ''Content-Type, x-nowpayments-sig''),
         (''Access-Control-Allow-Methods'', ''GET, POST, OPTIONS'')],
      resp_body = b\<rparr>"

definition error_json :: "string \<Rightarrow> reply" where
  "error_json m = Json (JObj [(''error'', JStr m)])"

text \<open>
  What the clock and the random generator give during one request: \<^verbatim>\<open>Date.now()\<close>,
  \<^verbatim>\<open>new Date().toISOString()\<close> and \<^verbatim>\<open>crypto.randomBytes(4)\<close>.
\<close>

record clock =
  Date_now :: nat
  toISOString :: string
  randomBytes4 :: "8 word list"

text \<open>
  An outbound call and what \<^verbatim>\<open>fetch\<close> makes of it: a transport failure, a reply whose
  body is not JSON, or a reply with \<^verbatim>\<open>response.ok\<close>, the status and the parsed body.
\<close>

record gw_request =
  url :: string
  gw_method :: string
  x_api_key :: string
  gw_body :: "jv option"

datatype fetch_outcome = FetchFailed string | NotJson nat | Replied bool nat jv

type_synonym network = "gw_request \<Rightarrow> fetch_outcome"

definition nowpaymentsRequest ::
  "runtime \<Rightarrow> config \<Rightarrow> network \<Rightarrow> string \<Rightarrow> string \<Rightarrow> jv option
    \<Rightarrow> gw_request list \<times> (js_error + jv)" where
  "nowpaymentsRequest rt cfg fetch endpoint method b =
     (case NOWPAYMENTS_API_KEY cfg of
        None \<Rightarrow> ([], Inl (Error msg_api_key_missing))
      | Some key \<Rightarrow>
          if key = [] then ([], Inl (Error msg_api_key_missing))
          else
            let req = \<lparr>url = NOWPAYMENTS_BASE cfg @ endpoint, gw_method = method,
                       x_api_key = key,
                       gw_body = (case b of None \<Rightarrow> None
                                  | Some v \<Rightarrow> if truthy v then Some v else None)\<rparr>
            in ([req],
                case fetch req of
                  FetchFailed m \<Rightarrow> Inl (Error (''Network error calling NOWPayments: '' @ m))
                | NotJson st \<Rightarrow>
                    Inl (Error (''NOWPayments returned invalid JSON (status ''
                                @ string_of_nat st @ '')''))
                | Replied ok st data \<Rightarrow>
                    if ok then Inr data
                    else if nullish data then Inl TypeError
                    else Inl (Error (if truthy (js_get data ''message'')
                                     then ToString rt (js_get data ''message'')
                                     else ''NOWPayments API error: '' @ string_of_nat st))))"

section \<open>The handlers\<close>

text \<open>
  A route yields the outbound calls it made and either the error it threw or its response
  with the stores as it leaves them. No route throws after it has written to a store, so a
  thrown error leaves the stores as they were.
\<close>

type_synonym route_result = "gw_request list \<times> (js_error + response \<times> server_state)"

definition header_or :: "event \<Rightarrow> string \<Rightarrow> string \<Rightarrow> string" where
  "header_or ev k d = (case map_of (headers ev) k of None \<Rightarrow> d | Some v \<Rightarrow> if v = [] then d else v)"

definition order_description :: "player \<Rightarrow> string" where
  "order_description p = ''Al-Nassr VIP Card: '' @ nameEn p @ '' (PSA 10)''"

definition new_orderId :: "clock \<Rightarrow> player \<Rightarrow> string" where
  "new_orderId clk p = ''NASSR-'' @ string_of_nat (Date_now clk) @ ''-'' @ string_of_nat (player_id p)"

definition find_player :: "jv \<Rightarrow> player list \<Rightarrow> player option" where
  "find_player wanted ps = find (\<lambda>p. JNum (of_nat (player_id p)) = wanted) ps"

subsection \<open>Gateway pass-through routes and reads\<close>

definition get_status :: "runtime \<Rightarrow> config \<Rightarrow> network \<Rightarrow> server_state \<Rightarrow> route_result" where
  "get_status rt cfg fetch s =
     (case nowpaymentsRequest rt cfg fetch ''/status'' ''GET'' None of
        (calls, Inr st) \<Rightarrow>
          (calls, Inr (respond 200 (Json (JObj [(''server'', JStr ''ok''), (''nowpayments'', st)])), s))
      | (calls, Inl e) \<Rightarrow>
          (calls, Inr (respond 200 (Json (JObj [(''server'', JStr ''ok''),
             (''nowpayments'', JObj [(''message'', JStr (error_message rt e))])])), s)))"

definition pass_through :: "runtime \<Rightarrow> config \<Rightarrow> network \<Rightarrow> server_state \<Rightarrow> string \<Rightarrow> route_result" where
  "pass_through rt cfg fetch s endpoint =
     (case nowpaymentsRequest rt cfg fetch endpoint ''GET'' None of
        (calls, Inr data) \<Rightarrow> (calls, Inr (respond 200 (Json data), s))
      | (calls, Inl e) \<Rightarrow> (calls, Inl e))"

definition get_min_amount :: "runtime \<Rightarrow> config \<Rightarrow> network \<Rightarrow> server_state \<Rightarrow> event \<Rightarrow> route_result" where
  "get_min_amount rt cfg fetch s ev =
     pass_through rt cfg fetch s
       (''/min-amount?currency_from='' @ split_slash_1 (path ev) @ ''&currency_to=sar'')"

definition query_param :: "event \<Rightarrow> string \<Rightarrow> string" where
  "query_param ev k =
     (case queryStringParameters ev of
        None \<Rightarrow> ''undefined''
      | Some ps \<Rightarrow> (case map_of ps k of None \<Rightarrow> ''undefined'' | Some v \<Rightarrow> v))"

definition get_estimate :: "runtime \<Rightarrow> config \<Rightarrow> network \<Rightarrow> server_state \<Rightarrow> event \<Rightarrow> route_result" where
  "get_estimate rt cfg fetch s ev =
     pass_through rt cfg fetch s
       (''/estimate?amount='' @ query_param ev ''amount'' @ ''&currency_from=sar&currency_to=''
        @ query_param ev ''currency'')"

definition get_payment_status :: "runtime \<Rightarrow> config \<Rightarrow> network \<Rightarrow> server_state \<Rightarrow> event \<Rightarrow> route_result" where
  "get_payment_status rt cfg fetch s ev =
     (case nowpaymentsRequest rt cfg fetch (''/payment/'' @ split_slash_1 (path ev)) ''GET'' None of
        (calls, Inl e) \<Rightarrow> (calls, Inl e)
      | (calls, Inr data) \<Rightarrow>
          if nullish data then (calls, Inl TypeError)
          else (calls, Inr (respond 200 (Json (JObj
                  [(''paymentId'', js_get data ''payment_id''),
                   (''status'', js_get data ''payment_status''),
                   (''payAmount'', js_get data ''pay_amount''),
                   (''actuallyPaid'', js_get data ''actually_paid''),
                   (''payCurrency'', js_get data ''pay_currency'')])), s)))"

definition get_cards :: "server_state \<Rightarrow> route_result" where
  "get_cards s = ([], Inr (respond 200 (CardsJson (players s)), s))"

definition get_order :: "server_state \<Rightarrow> event \<Rightarrow> route_result" where
  "get_order s ev =
     (case orders s (replace_first ''order/'' [] (path ev)) of
        None \<Rightarrow> ([], Inr (respond 404 (error_json ''Order not found''), s))
      | Some order \<Rightarrow> ([], Inr (respond 200 (OrderJson order), s)))"

subsection \<open>Creating a payment or an invoice\<close>

text \<open>The records \<^verbatim>\<open>orders.set\<close> stores, for a payment and for an invoice.\<close>

definition payment_order :: "clock \<Rightarrow> player \<Rightarrow> jv \<Rightarrow> jv \<Rightarrow> order" where
  "payment_order clk player b paymentData =
     \<lparr>orderId = new_orderId clk player,
      playerId = player_id player,
      playerName = nameEn player,
      priceAmount = price player,
      payCurrency = js_get b ''currency'',
      payAmount = js_get paymentData ''pay_amount'',
      payAddress = js_get paymentData ''pay_address'',
      paymentId = js_get paymentData ''payment_id'',
      invoiceId = JUndefined,
      invoiceUrl = JUndefined,
      status = js_get paymentData ''payment_status'',
      redeemOption = js_get b ''redeemOption'',
      customer = js_get b ''customer'',
      createdAt = toISOString clk,
      actuallyPaid = JUndefined\<rparr>"

definition invoice_order :: "clock \<Rightarrow> player \<Rightarrow> jv \<Rightarrow> jv \<Rightarrow> order" where
  "invoice_order clk player b invoiceData =
     \<lparr>orderId = new_orderId clk player,
      playerId = player_id player,
      playerName = nameEn player,
      priceAmount = price player,
      payCurrency = JUndefined,
      payAmount = JUndefined,
      payAddress = JUndefined,
      paymentId = JUndefined,
      invoiceId = js_get invoiceData ''id'',
      invoiceUrl = js_get invoiceData ''invoice_url'',
      status = JStr ''waiting'',
      redeemOption = js_get b ''redeemOption'',
      customer = js_get b ''customer'',
      createdAt = toISOString clk,
      actuallyPaid = JUndefined\<rparr>"

definition create_payment ::
  "runtime \<Rightarrow> config \<Rightarrow> network \<Rightarrow> clock \<Rightarrow> server_state \<Rightarrow> event \<Rightarrow> route_result" where
  "create_payment rt cfg fetch clk s ev =
     (case body ev of
        None \<Rightarrow> ([], Inl SyntaxError)
      | Some b \<Rightarrow>
          if nullish b then ([], Inl TypeError)
          else
            let currency = js_get b ''currency'';
                cust = js_get b ''customer''
            in case find_player (js_get b ''playerId'') (players s) of
                 None \<Rightarrow> ([], Inr (respond 404 (error_json ''Card not found''), s))
               | Some player \<Rightarrow>
                   if sold player then ([], Inr (respond 400 (error_json ''Card already sold''), s))
                   else if \<not> truthy currency
                     then ([], Inr (respond 400 (error_json ''Currency is required''), s))
                   else if \<not> truthy cust \<or> \<not> truthy (js_get cust ''email'')
                     then ([], Inr (respond 400 (error_json ''Customer email is required''), s))
                   else
                     let oid = new_orderId clk player;
                         host = header_or ev ''host'' ''localhost'';
                         proto = header_or ev ''x-forwarded-proto'' ''https''
                     in case nowpaymentsRequest rt cfg fetch ''/payment'' ''POST''
                               (Some (JObj
                                 [(''price_amount'', JNum (of_nat (price player))),
                                  (''price_currency'', JStr ''sar''),
                                  (''pay_currency'', currency),
                                  (''order_id'', JStr oid),
                                  (''order_description'', JStr (order_description player)),
                                  (''ipn_callback_url'', JStr (proto @ ''://'' @ host @ ''/api/ipn''))])) of
                          (calls, Inl e) \<Rightarrow> (calls, Inl e)
                        | (calls, Inr paymentData) \<Rightarrow>
                            if nullish paymentData then (calls, Inl TypeError)
                            else
                              (calls,
                               Inr (respond 200 (Json (JObj
                                      [(''success'', JBool True),
                                       (''orderId'', JStr oid),
                                       (''paymentId'', js_get paymentData ''payment_id''),
                                       (''payAddress'', js_get paymentData ''pay_address''),
                                       (''payAmount'', js_get paymentData ''pay_amount''),
                                       (''payCurrency'', currency),
                                       (''status'', js_get paymentData ''payment_status''),
                                       (''validUntil'', js_get paymentData ''expiration_estimate_date'')])),
                                    s\<lparr>orders := (orders s)(oid \<mapsto>
                                      payment_order clk player b paymentData)\<rparr>)))"

definition create_invoice ::
  "runtime \<Rightarrow> config \<Rightarrow> network \<Rightarrow> clock \<Rightarrow> server_state \<Rightarrow> event \<Rightarrow> route_result" where
  "create_invoice rt cfg fetch clk s ev =
     (case body ev of
        None \<Rightarrow> ([], Inl SyntaxError)
      | Some b \<Rightarrow>
          if nullish b then ([], Inl TypeError)
          else
            case find_player (js_get b ''playerId'') (players s) of
              None \<Rightarrow> ([], Inr (respond 404 (error_json ''Card not found''), s))
            | Some player \<Rightarrow>
                if sold player then ([], Inr (respond 400 (error_json ''Card already sold''), s))
                else
                  let oid = new_orderId clk player;
                      host = header_or ev ''host'' ''localhost'';
                      proto = header_or ev ''x-forwarded-proto'' ''https''
                  in case nowpaymentsRequest rt cfg fetch ''/invoice'' ''POST''
                            (Some (JObj
                              [(''price_amount'', JNum (of_nat (price player))),
                               (''price_currency'', JStr ''sar''),
                               (''order_id'', JStr oid),
                               (''order_description'', JStr (order_description player)),
                               (''ipn_callback_url'', JStr (proto @ ''://'' @ host @ ''/api/ipn'')),
                               (''success_url'',
                                  JStr (proto @ ''://'' @ host @ ''/?payment=success&order='' @ oid)),
                               (''cancel_url'', JStr (proto @ ''://'' @ host @ ''/?payment=cancelled''))])) of
                       (calls, Inl e) \<Rightarrow> (calls, Inl e)
                     | (calls, Inr invoiceData) \<Rightarrow>
                         if nullish invoiceData then (calls, Inl TypeError)
                         else
                           (calls,
                            Inr (respond 200 (Json (JObj
                                   [(''success'', JBool True),
                                    (''orderId'', JStr oid),
                                    (''invoiceId'', js_get invoiceData ''id''),
                                    (''invoiceUrl'', js_get invoiceData ''invoice_url'')])),
                                 s\<lparr>orders := (orders s)(oid \<mapsto>
                                   invoice_order clk player b invoiceData)\<rparr>)))"

subsection \<open>The payment webhook\<close>

text \<open>
  \<^verbatim>\<open>players.find((p) => p.id === order.playerId)\<close> followed by \<^verbatim>\<open>player.sold = true\<close>:
  the first catalogue item with that id is marked, if there is one.
\<close>

fun markSold :: "nat \<Rightarrow> player list \<Rightarrow> player list" where
  "markSold i [] = []"
| "markSold i (p # ps) = (if player_id p = i then p\<lparr>sold := True\<rparr> # ps else p # markSold i ps)"

text \<open>
  The signature check. With a secret configured it yields whether the request is
  rejected, or the TypeError \<^verbatim>\<open>Object.keys\<close> throws; without one it rejects nothing.
\<close>

definition signature_rejected :: "runtime \<Rightarrow> config \<Rightarrow> event \<Rightarrow> jv \<Rightarrow> js_error + bool" where
  "signature_rejected rt cfg ev payload =
     (case NOWPAYMENTS_IPN_SECRET cfg of
        None \<Rightarrow> Inr False
      | Some secret \<Rightarrow>
          if secret = [] then Inr False
          else case sortedPayload payload of
                 Inl e \<Rightarrow> Inl e
               | Inr sp \<Rightarrow>
                   Inr (map_of (headers ev) ''x-nowpayments-sig''
                        \<noteq> Some (hmac_sha512_hex rt secret (JSON_stringify rt (JObj sp)))))"

text \<open>The update of the order and of the catalogue, once the signature has been accepted.\<close>

definition applyWebhookUpdate :: "server_state \<Rightarrow> jv \<Rightarrow> jv \<Rightarrow> jv \<Rightarrow> server_state" where
  "applyWebhookUpdate s order_id payment_status actually_paid =
     (case order_id of
        JStr oid \<Rightarrow>
          (case orders s oid of
             None \<Rightarrow> s
           | Some order \<Rightarrow>
               let s1 = s\<lparr>orders := (orders s)(oid \<mapsto>
                          order\<lparr>status := payment_status, actuallyPaid := actually_paid\<rparr>)\<rparr>
               in if payment_status = JStr ''confirmed'' \<or> payment_status = JStr ''finished''
                  then s1\<lparr>players := markSold (playerId order) (players s1)\<rparr>
                  else s1)
      | _ \<Rightarrow> s)"

definition ipn :: "runtime \<Rightarrow> config \<Rightarrow> server_state \<Rightarrow> event \<Rightarrow> route_result" where
  "ipn rt cfg s ev =
     (case body ev of
        None \<Rightarrow> ([], Inl SyntaxError)
      | Some payload \<Rightarrow>
          (case signature_rejected rt cfg ev payload of
             Inl e \<Rightarrow> ([], Inl e)
           | Inr rejected \<Rightarrow>
               if rejected then ([], Inr (respond 400 (error_json ''Invalid signature''), s))
               else if nullish payload then ([], Inl TypeError)
               else ([], Inr (respond 200 (Json (JObj [(''success'', JBool True)])),
                              applyWebhookUpdate s (js_get payload ''order_id'')
                                (js_get payload ''payment_status'') (js_get payload ''actually_paid'')))))"

subsection \<open>Redeeming a code\<close>

definition normalize :: "runtime \<Rightarrow> string \<Rightarrow> string" where
  "normalize rt c = trim (toUpperCase (toUpperCase_other rt) c)"

definition new_txId :: "runtime \<Rightarrow> clock \<Rightarrow> string" where
  "new_txId rt clk =
     ''LN-'' @ string_of_nat (Date_now clk) @ ''-''
     @ toUpperCase (toUpperCase_other rt) (hex_of_bytes (randomBytes4 clk))"

definition redeem :: "runtime \<Rightarrow> clock \<Rightarrow> server_state \<Rightarrow> event \<Rightarrow> route_result" where
  "redeem rt clk s ev =
     (case body ev of
        None \<Rightarrow> ([], Inl SyntaxError)
      | Some b \<Rightarrow>
          if nullish b then ([], Inl TypeError)
          else
            let code = js_get b ''code'';
                lightningAddress = js_get b ''lightningAddress'';
                mail = js_get b ''email''
            in if \<not> truthy code \<or> \<not> truthy lightningAddress
               then ([], Inr (respond 400 (Json (JObj
                        [(''error'', JStr msg_redeem_required_error),
                         (''message'', JStr msg_redeem_required_message)])), s))
               else case code of
                 JStr c \<Rightarrow>
                   let normalizedCode = normalize rt c
                   in (case redeemCodes s normalizedCode of
                         None \<Rightarrow>
                           ([], Inr (respond 404 (Json (JObj
                                  [(''error'', JStr msg_redeem_invalid_error),
                                   (''message'', JStr msg_redeem_invalid_message)])), s))
                       | Some codeData \<Rightarrow>
                           if redeemed codeData
                           then ([], Inr (respond 400 (Json (JObj
                                  [(''error'', JStr msg_redeem_used_error),
                                   (''message'', JStr (msg_redeem_used_prefix
                                      @ toLocaleDateString_arSA rt (redeemedAt codeData)
                                      @ msg_redeem_used_suffix))])), s))
                           else
                             let tx = new_txId rt clk;
                                 codeData' = codeData\<lparr>redeemed := True,
                                               redeemedAt := JStr (toISOString clk),
                                               redeemedTo := lightningAddress,
                                               txId := JStr tx,
                                               email := (if truthy mail then mail else JNull)\<rparr>
                             in ([], Inr (respond 200 (Json (JObj
                                    [(''success'', JBool True),
                                     (''message'', JStr (msg_redeem_sent_prefix
                                        @ toLocaleString rt (sats codeData') @ msg_redeem_sent_suffix)),
                                     (''playerName'', JStr (code_playerName codeData')),
                                     (''sats'', JNum (of_nat (sats codeData'))),
                                     (''lightningAddress'', lightningAddress),
                                     (''txId'', JStr tx),
                                     (''redeemedAt'', redeemedAt codeData')])),
                                   s\<lparr>redeemCodes := (redeemCodes s)(normalizedCode \<mapsto> codeData')\<rparr>)))
               | _ \<Rightarrow> ([], Inl TypeError))"

definition code_status :: "server_state \<Rightarrow> string \<Rightarrow> response" where
  "code_status s c =
     (case redeemCodes s c of
        None \<Rightarrow> respond 404 (error_json ''Code not found'')
      | Some codeData \<Rightarrow>
          respond 200 (Json (JObj
            [(''playerName'', JStr (code_playerName codeData)),
             (''sats'', JNum (of_nat (sats codeData))),
             (''redeemed'', JBool (redeemed codeData))])))"

definition get_redeem :: "runtime \<Rightarrow> server_state \<Rightarrow> event \<Rightarrow> route_result" where
  "get_redeem rt s ev =
     ([], Inr (code_status s (normalize rt (replace_first ''redeem/'' [] (path ev))), s))"

text \<open>
  The Express server answers \<^verbatim>\<open>GET /api/redeem/:code\<close> from the route parameter, with the
  same lookup and the same three fields.
\<close>

definition express_get_redeem :: "runtime \<Rightarrow> server_state \<Rightarrow> string \<Rightarrow> response \<times> server_state" where
  "express_get_redeem rt s c = (code_status s (normalize rt c), s)"

subsection \<open>Routing\<close>

definition route ::
  "runtime \<Rightarrow> config \<Rightarrow> network \<Rightarrow> clock \<Rightarrow> server_state \<Rightarrow> event \<Rightarrow> route_result" where
  "route rt cfg fetch clk s ev =
     (let m = httpMethod ev; p = path ev in
      if m = ''GET'' \<and> p = ''status'' then get_status rt cfg fetch s
      else if m = ''GET'' \<and> p = ''currencies'' then pass_through rt cfg fetch s ''/currencies''
      else if m = ''GET'' \<and> startsWith p ''min-amount/'' then get_min_amount rt cfg fetch s ev
      else if m = ''GET'' \<and> p = ''estimate'' then get_estimate rt cfg fetch s ev
      else if m = ''GET'' \<and> p = ''cards'' then get_cards s
      else if m = ''POST'' \<and> p = ''create-payment'' then create_payment rt cfg fetch clk s ev
      else if m = ''POST'' \<and> p = ''create-invoice'' then create_invoice rt cfg fetch clk s ev
      else if m = ''GET'' \<and> startsWith p ''payment-status/'' then get_payment_status rt cfg fetch s ev
      else if m = ''POST'' \<and> p = ''ipn'' then ipn rt cfg s ev
      else if m = ''GET'' \<and> startsWith p ''order/'' then get_order s ev
      else if m = ''POST'' \<and> p = ''redeem'' then redeem rt clk s ev
      else if m = ''GET'' \<and> startsWith p ''redeem/'' then get_redeem rt s ev
      else ([], Inr (respond 404 (Json (JObj
              [(''error'', JStr ''Route not found''), (''path'', JStr p), (''method'', JStr m)])), s)))"

text \<open>
  The exported handler: the CORS preflight, the routes, and the \<^verbatim>\<open>catch\<close> that turns a
  thrown error into a 500. It returns the response, the stores and the outbound calls.
\<close>

definition handler ::
  "runtime \<Rightarrow> config \<Rightarrow> network \<Rightarrow> clock \<Rightarrow> server_state \<Rightarrow> event
    \<Rightarrow> response \<times> server_state \<times> gw_request list" where
  "handler rt cfg fetch clk s ev =
     (if httpMethod ev = ''OPTIONS'' then (respond 200 (Json (JObj [])), s, [])
      else case route rt cfg fetch clk s ev of
             (calls, Inr (r, s')) \<Rightarrow> (r, s', calls)
           | (calls, Inl e) \<Rightarrow>
               (respond 500 (error_json
                  (if error_message rt e = [] then ''Internal server error'' else error_message rt e)),
                s, calls))"

text \<open>A sequence of requests, each with its own clock readings and network behaviour.\<close>

type_synonym request = "event \<times> clock \<times> network"

fun run :: "runtime \<Rightarrow> config \<Rightarrow> server_state \<Rightarrow> request list \<Rightarrow> response list \<times> server_state" where
  "run rt cfg s [] = ([], s)"
| "run rt cfg s ((ev, clk, fetch) # rs) =
     (case handler rt cfg fetch clk s ev of
        (r, s', calls) \<Rightarrow> (case run rt cfg s' rs of (out, s'') \<Rightarrow> (r # out, s'')))"

section \<open>Notions used in the statements\<close>

text \<open>
  \<^verbatim>\<open>orders.has(order_id)\<close>: map keys are compared by value and every stored key is a
  string, so only a string can be a known order id.
\<close>

definition orders_has :: "server_state \<Rightarrow> jv \<Rightarrow> bool" where
  "orders_has s k = (case k of JStr oid \<Rightarrow> orders s oid \<noteq> None | _ \<Rightarrow> False)"

text \<open>A payload object with its keys sorted lexicographically, as the specification words it.\<close>

definition keys_sorted_lexicographically :: "(string \<times> jv) list \<Rightarrow> (string \<times> jv) list" where
  "keys_sorted_lexicographically kvs = sort_key fst kvs"

text \<open>ASCII white space: the white space characters that \<open>toUpperCase\<close> is known to leave alone.\<close>

definition ascii_space :: "char \<Rightarrow> bool" where
  "ascii_space c = (c \<in> set [CHR 0x09, CHR 0x0A, CHR 0x0B, CHR 0x0C, CHR 0x0D, CHR 0x20])"

text \<open>The code a \<^verbatim>\<open>POST redeem\<close> request names, once normalized, if it names one.\<close>

definition redeem_target :: "runtime \<Rightarrow> event \<Rightarrow> string option" where
  "redeem_target rt ev =
     (case body ev of
        None \<Rightarrow> None
      | Some b \<Rightarrow> (case js_get b ''code'' of JStr c \<Rightarrow> Some (normalize rt c) | _ \<Rightarrow> None))"

text \<open>A request and its response are a successful redemption of the code \<open>k\<close>.\<close>

definition redeem_success :: "runtime \<Rightarrow> string \<Rightarrow> response \<times> request \<Rightarrow> bool" where
  "redeem_success rt k x =
     (case x of (r, ev, clk, fetch) \<Rightarrow>
        httpMethod ev = ''POST'' \<and> path ev = ''redeem'' \<and> statusCode r = 200
        \<and> redeem_target rt ev = Some k)"

text \<open>No catalogue item changes except that its \<open>sold\<close> flag may be set.\<close>

definition sold_kept :: "player list \<Rightarrow> player list \<Rightarrow> bool" where
  "sold_kept ps qs = list_all2 (\<lambda>p q. q = p \<or> q = p\<lparr>sold := True\<rparr>) ps qs"

subsection \<open>Example inputs\<close>

text \<open>
  Concrete inputs on which the theorems are instantiated. The functions of
  \<open>example_runtime\<close> are stand-ins: no theorem depends on what they compute.
\<close>

definition example_runtime :: runtime where
  "example_runtime =
     \<lparr>hmac_sha512_hex = (\<lambda>k m. k @ m),
      JSON_stringify = (\<lambda>v. case v of JObj kvs \<Rightarrow> concat (map (\<lambda>kv. fst kv @ '','') kvs) | _ \<Rightarrow> []),
      toUpperCase_other = (\<lambda>c. [c]),
      ToString_other = (\<lambda>v. []),
      engine_message = (\<lambda>e. []),
      toLocaleDateString_arSA = (\<lambda>v. case v of JStr d \<Rightarrow> take 10 d | _ \<Rightarrow> []),
      toLocaleString = string_of_nat\<rparr>"

definition example_config :: config where
  "example_config =
     \<lparr>NOWPAYMENTS_API_KEY = Some ''key'', NOWPAYMENTS_IPN_SECRET = Some ''secret'',
      PRODUCTION = None\<rparr>"

definition open_config :: config where
  "open_config =
     \<lparr>NOWPAYMENTS_API_KEY = Some ''key'', NOWPAYMENTS_IPN_SECRET = None, PRODUCTION = None\<rparr>"

definition example_clock :: clock where
  "example_clock =
     \<lparr>Date_now = 1700000000000, toISOString = ''2023-11-14T22:13:20.000Z'',
      randomBytes4 = [0xDE, 0xAD, 0xBE, 0xEF]\<rparr>"

definition example_network :: network where
  "example_network req =
     Replied True 200 (JObj
       [(''id'', JStr ''4522625843''),
        (''invoice_url'', JStr ''https://nowpayments.io/payment/?iid=4522625843''),
        (''payment_id'', JStr ''5745459419''),
        (''payment_status'', JStr ''waiting''),
        (''pay_address'', JStr ''3EZ2uTdVDAMFXTfc6uLDDKR6o8qKBZXVkj''),
        (''pay_amount'', JNum (3 / 1000))])"

definition post :: "string \<Rightarrow> (string \<times> string) list \<Rightarrow> jv \<Rightarrow> event" where
  "post p hs b =
     \<lparr>httpMethod = ''POST'', path = p, headers = hs, body = Some b, queryStringParameters = None\<rparr>"

definition get :: "string \<Rightarrow> event" where
  "get p = \<lparr>httpMethod = ''GET'', path = p, headers = [], body = None, queryStringParameters = None\<rparr>"

definition example_order :: order where
  "example_order =
     \<lparr>orderId = ''NASSR-1700000000000-1'', playerId = 1, playerName = ''Cristiano Ronaldo'',
      priceAmount = 189999, payCurrency = JStr ''btc'', payAmount = JNum (3 / 1000),
      payAddress = JStr ''3EZ2uTdVDAMFXTfc6uLDDKR6o8qKBZXVkj'', paymentId = JStr ''5745459419'',
      invoiceId = JUndefined, invoiceUrl = JUndefined, status = JStr ''waiting'',
      redeemOption = JStr ''sats'', customer = JObj [(''email'', JStr ''fan@example.com'')],
      createdAt = ''2023-11-14T22:13:20.000Z'', actuallyPaid = JUndefined\<rparr>"

definition state_with_order :: server_state where
  "state_with_order = init_state\<lparr>orders := [''NASSR-1700000000000-1'' \<mapsto> example_order]\<rparr>"

section \<open>Routing lemmas\<close>

lemma startsWith_append: "startsWith s p \<longleftrightarrow> (\<exists>t. s = p @ t)"
proof
  assume "startsWith s p"
  then have "s = p @ drop (length p) s"
    unfolding startsWith_def by (metis append_take_drop_id)
  then show "\<exists>t. s = p @ t" ..
next
  assume "\<exists>t. s = p @ t"
  then show "startsWith s p" unfolding startsWith_def by auto
qed

lemma replace_first_prefix: "p \<noteq> [] \<Longrightarrow> replace_first p [] (p @ t) = t"
  by (cases p) (simp_all add: startsWith_def)

lemma route_create_payment:
  "httpMethod ev = ''POST'' \<Longrightarrow> path ev = ''create-payment''
    \<Longrightarrow> route rt cfg fetch clk s ev = create_payment rt cfg fetch clk s ev"
  by (simp add: route_def startsWith_def)

lemma route_create_invoice:
  "httpMethod ev = ''POST'' \<Longrightarrow> path ev = ''create-invoice''
    \<Longrightarrow> route rt cfg fetch clk s ev = create_invoice rt cfg fetch clk s ev"
  by (simp add: route_def startsWith_def)

lemma route_ipn:
  "httpMethod ev = ''POST'' \<Longrightarrow> path ev = ''ipn'' \<Longrightarrow> route rt cfg fetch clk s ev = ipn rt cfg s ev"
  by (simp add: route_def startsWith_def)

lemma route_redeem:
  "httpMethod ev = ''POST'' \<Longrightarrow> path ev = ''redeem'' \<Longrightarrow> route rt cfg fetch clk s ev = redeem rt clk s ev"
  by (simp add: route_def startsWith_def)

lemma route_get_redeem:
  assumes "httpMethod ev = ''GET''" and "startsWith (path ev) ''redeem/''"
  shows "route rt cfg fetch clk s ev = get_redeem rt s ev"
proof -
  from assms(2) obtain t where "path ev = ''redeem/'' @ t"
    unfolding startsWith_append by blast
  with assms(1) show ?thesis
    by (simp add: route_def startsWith_def)
qed

lemma handler_route:
  "httpMethod ev \<noteq> ''OPTIONS'' \<Longrightarrow> route rt cfg fetch clk s ev = (calls, Inr (r, s'))
    \<Longrightarrow> handler rt cfg fetch clk s ev = (r, s', calls)"
  by (simp add: handler_def)

lemma handler_throw:
  "httpMethod ev \<noteq> ''OPTIONS'' \<Longrightarrow> route rt cfg fetch clk s ev = (calls, Inl e)
    \<Longrightarrow> handler rt cfg fetch clk s ev =
        (respond 500 (error_json
           (if error_message rt e = [] then ''Internal server error'' else error_message rt e)),
         s, calls)"
  by (simp add: handler_def)

section \<open>What each route leaves alone\<close>

lemma nowpaymentsRequest_cases:
  obtains (threw) calls e where "nowpaymentsRequest rt cfg fetch ep m b = (calls, Inl e)"
        | (data) calls d where "nowpaymentsRequest rt cfg fetch ep m b = (calls, Inr d)"
  by (cases "nowpaymentsRequest rt cfg fetch ep m b") (metis sum.exhaust prod.collapse)

lemma find_player_Some:
  "find_player v ps = Some p \<Longrightarrow> p \<in> set ps \<and> v = JNum (of_nat (player_id p))"
  unfolding find_player_def by (auto simp: find_Some_iff)

lemma find_player_not_nullish: "find_player (js_get b k) ps = Some p \<Longrightarrow> \<not> nullish b"
  by (cases b) (auto dest: find_player_Some)

lemma get_status_frame: "get_status rt cfg fetch s = (calls, Inr (r, s')) \<Longrightarrow> s' = s"
  unfolding get_status_def
  by (cases rule: nowpaymentsRequest_cases[of rt cfg fetch "''/status''" "''GET''" None]) auto

lemma pass_through_frame: "pass_through rt cfg fetch s ep = (calls, Inr (r, s')) \<Longrightarrow> s' = s"
  unfolding pass_through_def
  by (cases rule: nowpaymentsRequest_cases[of rt cfg fetch ep "''GET''" None]) auto

lemma get_payment_status_frame:
  "get_payment_status rt cfg fetch s ev = (calls, Inr (r, s')) \<Longrightarrow> s' = s"
  unfolding get_payment_status_def
  by (cases rule: nowpaymentsRequest_cases
        [of rt cfg fetch "''/payment/'' @ split_slash_1 (path ev)" "''GET''" None])
     (auto split: if_splits)

lemma get_order_frame: "get_order s ev = (calls, Inr (r, s')) \<Longrightarrow> s' = s"
  unfolding get_order_def by (auto split: option.splits)

text \<open>A creation that answers stores exactly one order, under the generated id.\<close>

lemma create_payment_result:
  assumes "create_payment rt cfg fetch clk s ev = (calls, Inr (r, s'))"
  shows "s' = s \<and> statusCode r \<noteq> 200
         \<or> (\<exists>b p d. body ev = Some b
               \<and> find_player (js_get b ''playerId'') (players s) = Some p \<and> \<not> sold p
               \<and> statusCode r = 200
               \<and> (\<exists>rest. resp_body r = Json (JObj ((''success'', JBool True)
                               # (''orderId'', JStr (new_orderId clk p)) # rest)))
               \<and> s' = s\<lparr>orders := (orders s)(new_orderId clk p \<mapsto> payment_order clk p b d)\<rparr>)"
proof (cases "body ev")
  case None
  with assms show ?thesis by (simp add: create_payment_def)
next
  case (Some b)
  show ?thesis
  proof (cases "find_player (js_get b ''playerId'') (players s)")
    case None
    with assms Some show ?thesis
      by (auto simp: create_payment_def respond_def split: if_splits)
  next
    case (Some p)
    note player = this
    let ?req = "nowpaymentsRequest rt cfg fetch ''/payment'' ''POST''
        (Some (JObj
          [(''price_amount'', JNum (of_nat (price p))),
           (''price_currency'', JStr ''sar''),
           (''pay_currency'', js_get b ''currency''),
           (''order_id'', JStr (new_orderId clk p)),
           (''order_description'', JStr (order_description p)),
           (''ipn_callback_url'', JStr (header_or ev ''x-forwarded-proto'' ''https'' @ ''://''
               @ header_or ev ''host'' ''localhost'' @ ''/api/ipn''))]))"
    obtain cs res where req: "?req = (cs, res)" by (cases ?req)
    from assms \<open>body ev = Some b\<close> player req show ?thesis
      by (cases res)
         (auto simp: create_payment_def Let_def respond_def split: if_splits)
  qed
qed

lemma create_invoice_result:
  assumes "create_invoice rt cfg fetch clk s ev = (calls, Inr (r, s'))"
  shows "s' = s \<and> statusCode r \<noteq> 200
         \<or> (\<exists>b p d. body ev = Some b
               \<and> find_player (js_get b ''playerId'') (players s) = Some p \<and> \<not> sold p
               \<and> statusCode r = 200
               \<and> (\<exists>rest. resp_body r = Json (JObj ((''success'', JBool True)
                               # (''orderId'', JStr (new_orderId clk p)) # rest)))
               \<and> s' = s\<lparr>orders := (orders s)(new_orderId clk p \<mapsto> invoice_order clk p b d)\<rparr>)"
proof (cases "body ev")
  case None
  with assms show ?thesis by (simp add: create_invoice_def)
next
  case (Some b)
  show ?thesis
  proof (cases "find_player (js_get b ''playerId'') (players s)")
    case None
    with assms Some show ?thesis
      by (auto simp: create_invoice_def respond_def split: if_splits)
  next
    case (Some p)
    note player = this
    let ?proto = "header_or ev ''x-forwarded-proto'' ''https''"
    let ?host = "header_or ev ''host'' ''localhost''"
    let ?req = "nowpaymentsRequest rt cfg fetch ''/invoice'' ''POST''
        (Some (JObj
          [(''price_amount'', JNum (of_nat (price p))),
           (''price_currency'', JStr ''sar''),
           (''order_id'', JStr (new_orderId clk p)),
           (''order_description'', JStr (order_description p)),
           (''ipn_callback_url'', JStr (?proto @ ''://'' @ ?host @ ''/api/ipn'')),
           (''success_url'',
              JStr (?proto @ ''://'' @ ?host @ ''/?payment=success&order='' @ new_orderId clk p)),
           (''cancel_url'', JStr (?proto @ ''://'' @ ?host @ ''/?payment=cancelled''))]))"
    obtain cs res where req: "?req = (cs, res)" by (cases ?req)
    from assms \<open>body ev = Some b\<close> player req show ?thesis
      by (cases res)
         (auto simp: create_invoice_def Let_def respond_def split: if_splits)
  qed
qed

section \<open>Creating orders\<close>

lemma creation_success:
  assumes post: "httpMethod ev = ''POST''"
    and route: "path ev = ''create-payment'' \<or> path ev = ''create-invoice''"
    and run: "handler rt cfg fetch clk s ev = (r, s', calls)"
    and ok: "statusCode r = 200"
  shows "\<exists>b p ord. body ev = Some b
           \<and> find_player (js_get b ''playerId'') (players s) = Some p
           \<and> orderId ord = new_orderId clk p \<and> playerId ord = player_id p
           \<and> createdAt ord = toISOString clk
           \<and> s' = s\<lparr>orders := (orders s)(new_orderId clk p \<mapsto> ord)\<rparr>"
proof -
  from post have not_options: "httpMethod ev \<noteq> ''OPTIONS''" by simp
  obtain cs res where rr: "route rt cfg fetch clk s ev = (cs, res)"
    by (cases "route rt cfg fetch clk s ev")
  show ?thesis
  proof (cases res)
    case (Inl e)
    with rr not_options run ok show ?thesis
      by (auto simp: handler_def respond_def)
  next
    case (Inr x)
    obtain r0 s0 where x: "x = (r0, s0)" by (cases x)
    with Inr rr not_options run have eq: "r0 = r" "s0 = s'"
      by (simp_all add: handler_def)
    from route show ?thesis
    proof
      assume "path ev = ''create-payment''"
      with post rr Inr x eq have "create_payment rt cfg fetch clk s ev = (cs, Inr (r, s'))"
        by (simp add: route_create_payment)
      from create_payment_result[OF this] ok obtain b p d where
        "body ev = Some b" "find_player (js_get b ''playerId'') (players s) = Some p"
        "s' = s\<lparr>orders := (orders s)(new_orderId clk p \<mapsto> payment_order clk p b d)\<rparr>"
        by auto
      then show ?thesis
        by (intro exI[of _ b] exI[of _ p] exI[of _ "payment_order clk p b d"])
           (simp add: payment_order_def)
    next
      assume "path ev = ''create-invoice''"
      with post rr Inr x eq have "create_invoice rt cfg fetch clk s ev = (cs, Inr (r, s'))"
        by (simp add: route_create_invoice)
      from create_invoice_result[OF this] ok obtain b p d where
        "body ev = Some b" "find_player (js_get b ''playerId'') (players s) = Some p"
        "s' = s\<lparr>orders := (orders s)(new_orderId clk p \<mapsto> invoice_order clk p b d)\<rparr>"
        by auto
      then show ?thesis
        by (intro exI[of _ b] exI[of _ p] exI[of _ "invoice_order clk p b d"])
           (simp add: invoice_order_def)
    qed
  qed
qed

text \<open>
  C8. A \<^verbatim>\<open>create-payment\<close> request for a catalogue item whose \<open>sold\<close> flag is set is
  answered with status 400 and the error \<^verbatim>\<open>Card already sold\<close>; the stores are the ones
  before the request (no order is created) and no call to the gateway is made.
\<close>

theorem C8_sold_card_creates_no_order:
  assumes "httpMethod ev = ''POST''" and "path ev = ''create-payment''"
    and "body ev = Some b"
    and "find_player (js_get b ''playerId'') (players s) = Some p"
    and "sold p"
  shows "handler rt cfg fetch clk s ev = (respond 400 (error_json ''Card already sold''), s, [])"
proof -
  from assms(4) have "\<not> nullish b" by (rule find_player_not_nullish)
  with assms(3-5) have "create_payment rt cfg fetch clk s ev
      = ([], Inr (respond 400 (error_json ''Card already sold''), s))"
    by (simp add: create_payment_def)
  with assms(1,2) show ?thesis
    by (simp add: handler_def route_create_payment)
qed

theorem C8_sold_card_creates_no_order_witness:
  "handler example_runtime example_config example_network example_clock init_state
     (post ''create-payment'' []
        (JObj [(''playerId'', JNum 3), (''currency'', JStr ''btc''),
               (''customer'', JObj [(''email'', JStr ''fan@example.com'')])]))
   = (respond 400 (error_json ''Card already sold''), init_state, [])"
  by (rule C8_sold_card_creates_no_order
        [where b = "JObj [(''playerId'', JNum 3), (''currency'', JStr ''btc''),
                          (''customer'', JObj [(''email'', JStr ''fan@example.com'')])]"
           and p = "\<lparr>player_id = 3, name = name_laporte, nameEn = ''Aymeric Laporte'',
                      price = 99999, btc = 27 / 100, sold = True\<rparr>"])
     (simp_all add: post_def init_state_def players_init_def find_player_def)

text \<open>
  C9. The order id of every created order is \<^verbatim>\<open>NASSR-\<close>, the creation time in
  milliseconds, a hyphen and the item id, and the order is stored under that id. Hence a
  second creation for the same item with the same time generates the same id, and its
  record replaces the first one: after both, the order store is the original store with
  the second record alone under that id.
\<close>

theorem C9_orderId_is_time_and_item:
  assumes "httpMethod ev = ''POST''"
    and "path ev = ''create-payment'' \<or> path ev = ''create-invoice''"
    and "handler rt cfg fetch clk s ev = (r, s', calls)"
    and "statusCode r = 200"
  shows "\<exists>b p ord. body ev = Some b
           \<and> find_player (js_get b ''playerId'') (players s) = Some p
           \<and> orderId ord = ''NASSR-'' @ string_of_nat (Date_now clk) @ ''-'' @ string_of_nat (player_id p)
           \<and> playerId ord = player_id p
           \<and> s' = s\<lparr>orders := (orders s)(orderId ord \<mapsto> ord)\<rparr>
           \<and> (\<forall>ev2 fetch2 clk2 r2 s2 calls2 b2.
                 httpMethod ev2 = ''POST''
                 \<and> (path ev2 = ''create-payment'' \<or> path ev2 = ''create-invoice'')
                 \<and> handler rt cfg fetch2 clk2 s' ev2 = (r2, s2, calls2) \<and> statusCode r2 = 200
                 \<and> body ev2 = Some b2 \<and> js_get b2 ''playerId'' = js_get b ''playerId''
                 \<and> Date_now clk2 = Date_now clk
                 \<longrightarrow> (\<exists>ord2. orderId ord2 = orderId ord \<and> createdAt ord2 = toISOString clk2
                        \<and> orders s2 = (orders s)(orderId ord \<mapsto> ord2)))"
proof -
  from creation_success[OF assms] obtain b p ord where first:
    "body ev = Some b" "find_player (js_get b ''playerId'') (players s) = Some p"
    "orderId ord = new_orderId clk p" "playerId ord = player_id p"
    "s' = s\<lparr>orders := (orders s)(new_orderId clk p \<mapsto> ord)\<rparr>"
    by blast
  have again: "\<exists>ord2. orderId ord2 = orderId ord \<and> createdAt ord2 = toISOString clk2
                  \<and> orders s2 = (orders s)(orderId ord \<mapsto> ord2)"
    if second: "httpMethod ev2 = ''POST''"
       "path ev2 = ''create-payment'' \<or> path ev2 = ''create-invoice''"
       "handler rt cfg fetch2 clk2 s' ev2 = (r2, s2, calls2)" "statusCode r2 = 200"
       and same: "body ev2 = Some b2" "js_get b2 ''playerId'' = js_get b ''playerId''"
       "Date_now clk2 = Date_now clk"
    for ev2 fetch2 clk2 r2 s2 calls2 b2
  proof -
    from creation_success[OF second] same(1) obtain p2 ord2 where snd:
      "find_player (js_get b2 ''playerId'') (players s') = Some p2"
      "orderId ord2 = new_orderId clk2 p2" "createdAt ord2 = toISOString clk2"
      "s2 = s'\<lparr>orders := (orders s')(new_orderId clk2 p2 \<mapsto> ord2)\<rparr>"
      by auto
    from first(5) have "players s' = players s" by simp
    with snd(1) same(2) first(2) have "p2 = p" by simp
    with same(3) have id: "new_orderId clk2 p2 = new_orderId clk p"
      by (simp add: new_orderId_def)
    from snd(4) first(5) id have "orders s2 = (orders s)(new_orderId clk p \<mapsto> ord2)"
      by simp
    with snd(2,3) id first(3) show ?thesis by auto
  qed
  have id_eq: "orderId ord
      = ''NASSR-'' @ string_of_nat (Date_now clk) @ ''-'' @ string_of_nat (player_id p)"
    using first(3) by (simp add: new_orderId_def)
  have stored: "s' = s\<lparr>orders := (orders s)(orderId ord \<mapsto> ord)\<rparr>"
    using first(3,5) by simp
  have overwritten: "\<forall>ev2 fetch2 clk2 r2 s2 calls2 b2.
      httpMethod ev2 = ''POST''
      \<and> (path ev2 = ''create-payment'' \<or> path ev2 = ''create-invoice'')
      \<and> handler rt cfg fetch2 clk2 s' ev2 = (r2, s2, calls2) \<and> statusCode r2 = 200
      \<and> body ev2 = Some b2 \<and> js_get b2 ''playerId'' = js_get b ''playerId''
      \<and> Date_now clk2 = Date_now clk
      \<longrightarrow> (\<exists>ord2. orderId ord2 = orderId ord \<and> createdAt ord2 = toISOString clk2
             \<and> orders s2 = (orders s)(orderId ord \<mapsto> ord2))"
    using again by blast
  from first(1,2,4) id_eq stored overwritten show ?thesis by blast
qed

end
